theory Spec2Isabelle
  imports Complex_Main "HOL-Library.Multiset"
begin

section \<open>Python strings\<close>

text \<open>
  A Python \<open>str\<close> is modelled as a \<open>string\<close>: a list of characters, each standing for
  one code point in the range 0..255.  The Unicode-aware predicates of Python
  (\<open>str.isspace\<close>, the regular-expression class \<open>\s\<close>, \<open>str.lower\<close>) are written out
  for that range.
\<close>

definition isspace :: "char \<Rightarrow> bool" where
  \<comment> \<open>\<open>str.isspace\<close> and \<open>\s\<close>: TAB, LF, VT, FF, CR, FS, GS, RS, US, SPACE, NEL, NBSP.\<close>
  "isspace c =
     (let n = (of_char c :: nat)
      in (9 \<le> n \<and> n \<le> 13) \<or> (28 \<le> n \<and> n \<le> 32) \<or> n = 133 \<or> n = 160)"

definition lower_char :: "char \<Rightarrow> char" where
  \<comment> \<open>\<open>A..Z\<close> and the upper-case letters of Latin-1 (all of 192..222 but the sign 215).\<close>
  "lower_char c =
     (let n = (of_char c :: nat)
      in if (65 \<le> n \<and> n \<le> 90) \<or> (192 \<le> n \<and> n \<le> 214) \<or> (216 \<le> n \<and> n \<le> 222)
         then char_of (n + 32) else c)"

definition str_lower :: "string \<Rightarrow> string" where
  "str_lower s = map lower_char s"

definition str_strip :: "string \<Rightarrow> string" where
  \<comment> \<open>\<open>s.strip()\<close>: white space removed at both ends.\<close>
  "str_strip s = rev (dropWhile isspace (rev (dropWhile isspace s)))"

fun split_acc :: "(char \<Rightarrow> bool) \<Rightarrow> string \<Rightarrow> string \<Rightarrow> string list" where
  "split_acc sep cur [] = [rev cur]"
| "split_acc sep cur (c # cs) =
     (if sep c then rev cur # split_acc sep [] cs else split_acc sep (c # cur) cs)"

definition str_split :: "(char \<Rightarrow> bool) \<Rightarrow> string \<Rightarrow> string list" where
  \<comment> \<open>\<open>s.split(',')\<close> and \<open>re.split(r'[,\n]', s)\<close>: one fragment more than there are
      separators, empty fragments kept; the empty string gives one empty fragment.\<close>
  "str_split sep s = split_acc sep [] s"

definition is_comma :: "char \<Rightarrow> bool" where
  "is_comma c = (c = CHR '','')"

definition is_comma_or_newline :: "char \<Rightarrow> bool" where
  "is_comma_or_newline c = (c = CHR '','' \<or> c = CHR 0x0A)"

function collapse_ws :: "string \<Rightarrow> string" where
  "collapse_ws [] = []"
| "collapse_ws (c # cs) =
     (if isspace c then CHR '' '' # collapse_ws (dropWhile isspace cs)
      else c # collapse_ws cs)"
  by pat_completeness auto
termination
  by (relation "measure length") (auto simp: length_dropWhile_le less_Suc_eq_le)

definition is_alnum_or_space :: "char \<Rightarrow> bool" where
  \<comment> \<open>the characters the class \<open>[^a-z0-9\s]\<close> does not match\<close>
  "is_alnum_or_space c =
     (let n = (of_char c :: nat)
      in (97 \<le> n \<and> n \<le> 122) \<or> (48 \<le> n \<and> n \<le> 57) \<or> isspace c)"

definition remove_special :: "string \<Rightarrow> string" where
  "remove_special s = filter is_alnum_or_space s"

section \<open>utils/preprocessing.py\<close>

definition INGREDIENT_ALIASES :: "(string \<times> string list) list" where
  \<comment> \<open>the dictionary in insertion order, which is the order \<open>.items()\<close> iterates in\<close>
  "INGREDIENT_ALIASES =
    [(''tomato'', [''tomatoes'', ''tomatoe'', ''tamatar'']),
     (''onion'', [''onions'', ''pyaz'']),
     (''garlic'', [''garlics'', ''lahsun'']),
     (''ginger'', [''gingers'', ''adrak'']),
     (''chicken'', [''chickens'', ''murgi'', ''murgh'']),
     (''rice'', [''rices'', ''basmati'', ''jasmine'']),
     (''oil'', [''oils'', ''ghee'', ''butter'']),
     (''salt'', [''salts'', ''namak'']),
     (''pepper'', [''peppers'', ''black pepper'', ''kali mirch'']),
     (''cumin'', [''cumins'', ''jeera'']),
     (''coriander'', [''cilantro'', ''dhania'']),
     (''turmeric'', [''haldi'']),
     (''chili'', [''chilies'', ''red chili'', ''lal mirch'']),
     (''milk'', [''milks'', ''doodh'']),
     (''yogurt'', [''yoghurt'', ''curd'', ''dahi'']),
     (''flour'', [''flours'', ''maida'']),
     (''sugar'', [''sugars'', ''cheeni'']),
     (''water'', [''waters'']),
     (''lemon'', [''lemons'', ''lime'', ''nimbu'']),
     (''potato'', [''potatoes'', ''aloo'']),
     (''carrot'', [''carrots'', ''gajar'']),
     (''spinach'', [''spinaches'', ''palak'']),
     (''green beans'', [''beans'', ''string beans'', ''lobiya'']),
     (''bell pepper'', [''capsicum'', ''simla mirch'']),
     (''mushroom'', [''mushrooms'', ''khumbh'']),
     (''peas'', [''green peas'', ''matar'']),
     (''paneer'', [''cottage cheese'', ''indian cheese'']),
     (''lentils'', [''dal'', ''daal'', ''lens'']),
     (''chickpeas'', [''chana'', ''garbanzo''])]"

definition clean :: "string \<Rightarrow> string" where
  \<comment> \<open>lines 55 to 61 of \<open>normalize_ingredient\<close>, in the order of the source\<close>
  "clean ingredient =
     (let normalized = str_strip (str_lower ingredient);
          normalized = collapse_ws normalized;
          normalized = remove_special normalized
      in normalized)"

fun alias_match :: "string list \<Rightarrow> string \<Rightarrow> bool" where
  \<comment> \<open>the inner loop: \<open>for alias in aliases: if normalized == alias.lower()\<close>\<close>
  "alias_match [] normalized = False"
| "alias_match (alias # aliases) normalized =
     (if normalized = str_lower alias then True else alias_match aliases normalized)"

fun resolve :: "(string \<times> string list) list \<Rightarrow> string \<Rightarrow> string" where
  \<comment> \<open>the outer loop over the items of the table, and the final \<open>return normalized\<close>\<close>
  "resolve [] normalized = normalized"
| "resolve ((canonical, aliases) # items) normalized =
     (if normalized = canonical then canonical
      else if alias_match aliases normalized then canonical
      else resolve items normalized)"

definition normalize_ingredient :: "string \<Rightarrow> string" where
  "normalize_ingredient ingredient = resolve INGREDIENT_ALIASES (clean ingredient)"

fun unique_loop :: "string list \<Rightarrow> string set \<Rightarrow> string list \<Rightarrow> string list" where
  \<comment> \<open>the loop over \<open>normalized\<close> with its two variables \<open>seen\<close> and \<open>unique_ingredients\<close>\<close>
  "unique_loop [] seen unique_ingredients = unique_ingredients"
| "unique_loop (ing # rest) seen unique_ingredients =
     (if ing \<noteq> [] \<and> ing \<notin> seen
      then unique_loop rest (insert ing seen) (unique_ingredients @ [ing])
      else unique_loop rest seen unique_ingredients)"

definition normalized_fragments :: "string \<Rightarrow> string list" where
  \<comment> \<open>the list comprehension: the fragments that are not blank, each normalized\<close>
  "normalized_fragments ingredients_text =
     map normalize_ingredient
       (filter (\<lambda>ing. str_strip ing \<noteq> []) (str_split is_comma_or_newline ingredients_text))"

definition normalize_ingredients :: "string \<Rightarrow> string list" where
  "normalize_ingredients ingredients_text =
     unique_loop (normalized_fragments ingredients_text) {} []"

section \<open>recommender.py\<close>

text \<open>
  Python's \<open>float\<close> is modelled by the rationals: the arithmetic is exact, and the
  division raises on a zero divisor as \<open>/\<close> does on Python numbers.  The integers are
  Python's unbounded \<open>int\<close>.
\<close>

datatype py_error = ZeroDivisionError

definition truediv :: "rat \<Rightarrow> rat \<Rightarrow> py_error + rat" where
  "truediv a b = (if b = 0 then Inl ZeroDivisionError else Inr (a / b))"

definition calculate_ingredient_overlap :: "string \<Rightarrow> string list \<Rightarrow> py_error + rat" where
  "calculate_ingredient_overlap recipe_ingredients user_ingredients =
     (let recipe_ing_list =
            map (\<lambda>ing. str_lower (str_strip ing)) (str_split is_comma recipe_ingredients);
          user_ing_set = set user_ingredients
      in if length recipe_ing_list = 0 then Inr 0
         else
           let matches = length (filter (\<lambda>ing. ing \<in> user_ing_set) recipe_ing_list)
           in case truediv (of_nat matches) (of_nat (length recipe_ing_list)) of
                Inl e \<Rightarrow> Inl e
              | Inr q \<Rightarrow> Inr (q * 100))"

text \<open>
  A row of the data frame.  The column \<open>ingredient_overlap\<close> is absent from the catalog
  (\<open>None\<close>) and present in what \<open>filter_recipes\<close> returns.
\<close>

record recipe =
  recipe_name :: string
  ingredients :: string
  cooking_time :: int
  meal_type :: string
  cuisine :: string
  instructions :: string
  ingredient_overlap :: "rat option"

fun apply_overlap :: "string list \<Rightarrow> recipe list \<Rightarrow> py_error + recipe list" where
  \<comment> \<open>\<open>filtered['ingredient_overlap'] = filtered['ingredients'].apply(...)\<close>: the first
      call that raises ends the whole operation\<close>
  "apply_overlap user_ingredients [] = Inr []"
| "apply_overlap user_ingredients (row # rows) =
     (case calculate_ingredient_overlap (ingredients row) user_ingredients of
        Inl e \<Rightarrow> Inl e
      | Inr x \<Rightarrow>
          (case apply_overlap user_ingredients rows of
             Inl e \<Rightarrow> Inl e
           | Inr rows' \<Rightarrow> Inr (row\<lparr>ingredient_overlap := Some x\<rparr> # rows')))"

definition overlap_at_least :: "rat \<Rightarrow> recipe \<Rightarrow> bool" where
  "overlap_at_least threshold row =
     (case ingredient_overlap row of None \<Rightarrow> False | Some x \<Rightarrow> threshold \<le> x)"

definition overlap_key :: "recipe \<Rightarrow> rat" where
  \<comment> \<open>the sort key; every row that reaches the sort carries the column\<close>
  "overlap_key row = (case ingredient_overlap row of None \<Rightarrow> 0 | Some x \<Rightarrow> x)"

definition sort_descending :: "recipe list \<Rightarrow> recipe list" where
  \<comment> \<open>\<open>sort_values('ingredient_overlap', ascending=False)\<close>.  Rows of equal overlap are
      kept in their order here; pandas leaves their order to its sorting algorithm, and
      the statements below are about the keys and the set of rows only.\<close>
  "sort_descending rows = sort_key (\<lambda>row. - overlap_key row) rows"

definition filter_recipes ::
  "recipe list \<Rightarrow> string list \<Rightarrow> int \<Rightarrow> string \<Rightarrow> string \<Rightarrow> rat \<Rightarrow> py_error + recipe list" where
  "filter_recipes recipes_df user_ingredients max_cooking_time meal_type_q cuisine_q min_overlap =
     (let filtered = recipes_df;
          filtered = filter (\<lambda>row. cooking_time row \<le> max_cooking_time) filtered;
          filtered = filter (\<lambda>row. str_lower (meal_type row) = str_lower meal_type_q) filtered;
          filtered = filter (\<lambda>row. str_lower (cuisine row) = str_lower cuisine_q) filtered
      in case apply_overlap user_ingredients filtered of
           Inl e \<Rightarrow> Inl e
         | Inr filtered \<Rightarrow>
             (let filtered = filter (overlap_at_least (min_overlap * 100)) filtered;
                  filtered = sort_descending filtered
              in Inr filtered))"

definition score_recipe :: "recipe \<Rightarrow> string list \<Rightarrow> int \<Rightarrow> py_error + rat" where
  "score_recipe recipe user_ingredients cooking_time_limit =
     (case calculate_ingredient_overlap (ingredients recipe) user_ingredients of
        Inl e \<Rightarrow> Inl e
      | Inr ingredient_overlap_pct \<Rightarrow>
          (let ingredient_score = min ingredient_overlap_pct 100 * (4 / 10)
           in case truediv (of_int (cooking_time recipe)) (of_int cooking_time_limit) of
                Inl e \<Rightarrow> Inl e
              | Inr q \<Rightarrow>
                  (let time_efficiency = q * 100;
                       time_score = max 0 (100 - time_efficiency) * (3 / 10);
                       base_score = 30;
                       total_score = ingredient_score + time_score + base_score
                   in Inr (min total_score 100))))"

section \<open>Reference notions and sample data\<close>

fun first_occurrences :: "'a list \<Rightarrow> 'a list" where
  \<comment> \<open>every element once, at the place of its first occurrence\<close>
  "first_occurrences [] = []"
| "first_occurrences (x # xs) = x # first_occurrences (filter (\<lambda>y. y \<noteq> x) xs)"

definition pick :: "(string \<times> string list) list \<Rightarrow> string \<Rightarrow> string" where
  \<comment> \<open>the canonical name of the first entry that holds the fragment, by equality of
      strings, and the fragment itself when no entry does\<close>
  "pick items fragment =
     (case find (\<lambda>(canonical, aliases). fragment = canonical \<or> fragment \<in> set aliases) items of
        None \<Rightarrow> fragment
      | Some (canonical, aliases) \<Rightarrow> canonical)"

definition all_names :: "(string \<times> string list) list \<Rightarrow> string list" where
  "all_names items = concat (map (\<lambda>(canonical, aliases). canonical # aliases) items)"

definition pasta :: recipe where
  "pasta = \<lparr>recipe_name = ''Pasta'', ingredients = ''tomato, onion, garlic'',
     cooking_time = 20, meal_type = ''Dinner'', cuisine = ''Italian'',
     instructions = ''Boil'', ingredient_overlap = None\<rparr>"

definition salad :: recipe where
  "salad = \<lparr>recipe_name = ''Salad'', ingredients = ''Tomato,Onion'',
     cooking_time = 10, meal_type = ''dinner'', cuisine = ''ITALIAN'',
     instructions = ''Chop'', ingredient_overlap = None\<rparr>"

definition stew :: recipe where
  "stew = \<lparr>recipe_name = ''Stew'', ingredients = ''tomato, onion'',
     cooking_time = 90, meal_type = ''Dinner'', cuisine = ''Italian'',
     instructions = ''Simmer'', ingredient_overlap = None\<rparr>"

definition toast :: recipe where
  "toast = \<lparr>recipe_name = ''Toast'', ingredients = ''bread'',
     cooking_time = 5, meal_type = ''Dinner'', cuisine = ''Italian'',
     instructions = ''Toast'', ingredient_overlap = None\<rparr>"

definition catalog :: "recipe list" where
  "catalog = [pasta, stew, toast, salad]"

section \<open>The Overlap Scorer and the Filter Engine\<close>

lemma split_acc_nonempty: "split_acc sep cur s \<noteq> []"
  by (induction s arbitrary: cur) auto

lemma str_split_nonempty: "str_split sep s \<noteq> []"
  by (simp add: str_split_def split_acc_nonempty)

lemma truediv_nonzero: "b \<noteq> 0 \<Longrightarrow> truediv a b = Inr (a / b)"
  by (simp add: truediv_def)

lemma count_ratio_bounds:
  fixes m n :: nat
  assumes "m \<le> n" "0 < n"
  shows "0 \<le> (of_nat m / of_nat n :: rat) * 100 \<and> (of_nat m / of_nat n :: rat) * 100 \<le> 100"
proof -
  have "(of_nat m :: rat) \<le> of_nat n" using assms by simp
  moreover have "(0::rat) < of_nat n" using assms by simp
  ultimately have le1: "(of_nat m / of_nat n :: rat) \<le> 1" by (simp add: divide_le_eq)
  have ge0: "0 \<le> (of_nat m / of_nat n :: rat)" by simp
  from le1 have "(of_nat m / of_nat n :: rat) * 100 \<le> 1 * 100"
    by (rule mult_right_mono) simp
  moreover from ge0 have "0 \<le> (of_nat m / of_nat n :: rat) * 100"
    by (rule mult_nonneg_nonneg) simp
  ultimately show ?thesis by simp
qed

lemma overlap_total:
  "\<exists>x. calculate_ingredient_overlap ri u = Inr x \<and> 0 \<le> x \<and> x \<le> 100"
proof -
  define l where "l = map (\<lambda>ing. str_lower (str_strip ing)) (str_split is_comma ri)"
  define m where "m = length (filter (\<lambda>ing. ing \<in> set u) l)"
  have n: "0 < length l" using str_split_nonempty [of is_comma ri] by (simp add: l_def)
  have mn: "m \<le> length l" by (simp add: m_def)
  have "calculate_ingredient_overlap ri u = Inr ((of_nat m / of_nat (length l)) * 100)"
    using n unfolding calculate_ingredient_overlap_def Let_def l_def [symmetric] m_def [symmetric]
    by (simp add: truediv_nonzero)
  with count_ratio_bounds [OF mn n] show ?thesis by simp
qed

lemma overlap_projr:
  "calculate_ingredient_overlap ri u = Inr (projr (calculate_ingredient_overlap ri u))"
  using overlap_total [of ri u] by auto

lemma apply_overlap_map:
  "apply_overlap u rows =
     Inr (map (\<lambda>row. row\<lparr>ingredient_overlap :=
                 Some (projr (calculate_ingredient_overlap (ingredients row) u))\<rparr>) rows)"
proof (induction rows)
  case Nil
  show ?case by simp
next
  case (Cons row rows)
  obtain x where x: "calculate_ingredient_overlap (ingredients row) u = Inr x"
    using overlap_total by blast
  show ?case by (simp add: Cons.IH x)
qed

lemma filter_recipes_eq:
  "filter_recipes cat u maxT mt cu mo =
     Inr (sort_descending (filter (overlap_at_least (mo * 100))
       (map (\<lambda>row. row\<lparr>ingredient_overlap :=
                 Some (projr (calculate_ingredient_overlap (ingredients row) u))\<rparr>)
         (filter (\<lambda>row. str_lower (cuisine row) = str_lower cu)
           (filter (\<lambda>row. str_lower (meal_type row) = str_lower mt)
             (filter (\<lambda>row. cooking_time row \<le> maxT) cat))))))"
  by (simp add: filter_recipes_def Let_def apply_overlap_map)

lemma sorted_neg_key:
  "sorted (map (\<lambda>row. - overlap_key row) rows) \<Longrightarrow> sorted_wrt (\<ge>) (map overlap_key rows)"
  by (induction rows) auto

lemma sort_descending_sorted: "sorted_wrt (\<ge>) (map overlap_key (sort_descending rows))"
  unfolding sort_descending_def by (rule sorted_neg_key) (rule sorted_sort_key)

lemma set_sort_descending: "set (sort_descending rows) = set rows"
  by (simp add: sort_descending_def)

lemma filter_recipes_member:
  assumes "filter_recipes cat u maxT mt cu mo = Inr out" "r \<in> set out"
  shows "cooking_time r \<le> maxT \<and> str_lower (meal_type r) = str_lower mt \<and>
         str_lower (cuisine r) = str_lower cu \<and>
         (\<exists>x. ingredient_overlap r = Some x \<and>
              calculate_ingredient_overlap (ingredients r) u = Inr x \<and> mo * 100 \<le> x)"
proof -
  from assms obtain row where row: "row \<in> set cat" "cooking_time row \<le> maxT"
      "str_lower (meal_type row) = str_lower mt" "str_lower (cuisine row) = str_lower cu"
      and r: "r = row\<lparr>ingredient_overlap :=
                 Some (projr (calculate_ingredient_overlap (ingredients row) u))\<rparr>"
      and ge: "overlap_at_least (mo * 100) r"
    by (auto simp: filter_recipes_eq set_sort_descending)
  from ge r have "mo * 100 \<le> projr (calculate_ingredient_overlap (ingredients row) u)"
    by (simp add: overlap_at_least_def)
  with row r overlap_projr [of "ingredients row" u] show ?thesis by simp
qed

text \<open>
  Claim C1.  Whatever the catalog and the query, \<open>filter_recipes\<close> returns a list, and
  every row of it has a cooking time within the limit, the meal type and the cuisine of
  the query up to letter case, and carries as its overlap the value that
  \<open>calculate_ingredient_overlap\<close> gives for it, which is at least \<open>min_overlap * 100\<close>;
  the overlaps along the list never increase.
\<close>

theorem filter_recipes_sound:
  "\<exists>out. filter_recipes cat u maxT mt cu mo = Inr out \<and>
     (\<forall>r \<in> set out.
        cooking_time r \<le> maxT \<and> str_lower (meal_type r) = str_lower mt \<and>
        str_lower (cuisine r) = str_lower cu \<and>
        (\<exists>x. ingredient_overlap r = Some x \<and>
             calculate_ingredient_overlap (ingredients r) u = Inr x \<and> mo * 100 \<le> x)) \<and>
     sorted_wrt (\<ge>) (map overlap_key out)"
proof -
  obtain out where out: "filter_recipes cat u maxT mt cu mo = Inr out"
    by (simp add: filter_recipes_eq)
  have "sorted_wrt (\<ge>) (map overlap_key out)"
    using out by (auto simp: filter_recipes_eq sort_descending_sorted)
  with out filter_recipes_member [OF out] show ?thesis by blast
qed

lemma filter_recipes_fixed:
  assumes "filter_recipes cat u maxT mt cu mo = Inr out"
  shows "filter_recipes out u maxT mt cu mo = Inr out"
proof -
  have m: "cooking_time r \<le> maxT \<and> str_lower (meal_type r) = str_lower mt \<and>
         str_lower (cuisine r) = str_lower cu \<and>
         (\<exists>x. ingredient_overlap r = Some x \<and>
              calculate_ingredient_overlap (ingredients r) u = Inr x \<and> mo * 100 \<le> x)"
    if "r \<in> set out" for r
    using filter_recipes_member [OF assms that] .
  have f1: "filter (\<lambda>row. cooking_time row \<le> maxT) out = out"
    using m by (simp add: filter_id_conv)
  have f2: "filter (\<lambda>row. str_lower (meal_type row) = str_lower mt) out = out"
    using m by (simp add: filter_id_conv)
  have f3: "filter (\<lambda>row. str_lower (cuisine row) = str_lower cu) out = out"
    using m by (simp add: filter_id_conv)
  have "row\<lparr>ingredient_overlap :=
          Some (projr (calculate_ingredient_overlap (ingredients row) u))\<rparr> = row"
    if "row \<in> set out" for row
    using m [OF that] by auto
  then have f4: "map (\<lambda>row. row\<lparr>ingredient_overlap :=
          Some (projr (calculate_ingredient_overlap (ingredients row) u))\<rparr>) out = out"
    by (simp add: map_idI)
  have "overlap_at_least (mo * 100) row" if "row \<in> set out" for row
    using m [OF that] by (auto simp: overlap_at_least_def)
  then have f5: "filter (overlap_at_least (mo * 100)) out = out"
    by (simp add: filter_id_conv)
  have "sorted (map (\<lambda>row. - overlap_key row) out)"
    using assms by (auto simp: filter_recipes_eq sort_descending_def sorted_sort_key)
  then have f6: "sort_descending out = out"
    unfolding sort_descending_def by (rule sort_key_id_if_sorted)
  show ?thesis
    by (simp add: filter_recipes_eq [of out] f1 f2 f3 f4 f5 f6)
qed

text \<open>
  Claim C8.  Filtering the result of \<open>filter_recipes\<close> again with the same query
  returns the same records: the same set, each as often as before.
\<close>

theorem filter_recipes_idempotent:
  "\<exists>out out'. filter_recipes cat u maxT mt cu mo = Inr out \<and>
     filter_recipes out u maxT mt cu mo = Inr out' \<and> set out' = set out \<and> mset out' = mset out"
proof -
  obtain out where out: "filter_recipes cat u maxT mt cu mo = Inr out"
    by (simp add: filter_recipes_eq)
  from filter_recipes_fixed [OF out] out show ?thesis by blast
qed

section \<open>Evaluation on concrete strings\<close>

lemmas char_eval = isspace_def lower_char_def is_alnum_or_space_def is_comma_def
  is_comma_or_newline_def char_of_eq_iff

lemmas str_eval = str_lower_def str_strip_def str_split_def remove_special_def clean_def

section \<open>The Recipe Scorer\<close>

lemma score_recipe_eq:
  "score_recipe r u limit =
     (if limit = 0 then Inl ZeroDivisionError
      else Inr (min (min (projr (calculate_ingredient_overlap (ingredients r) u)) 100 * (4 / 10)
              + max 0 (100 - of_int (cooking_time r) / of_int limit * 100) * (3 / 10) + 30) 100))"
proof -
  obtain x where x: "calculate_ingredient_overlap (ingredients r) u = Inr x"
    using overlap_total by blast
  show ?thesis by (simp add: score_recipe_def x truediv_def Let_def)
qed

text \<open>
  Claim C3, as the code has it.  With the time limit 0 the division raises
  \<open>ZeroDivisionError\<close> and no score is returned.  A negative time limit is not rejected:
  the scorer returns a number.
\<close>

theorem score_recipe_zero_limit:
  "score_recipe r u 0 = Inl ZeroDivisionError \<and>
   (limit < 0 \<longrightarrow> (\<exists>s. score_recipe r u limit = Inr s))"
  by (simp add: score_recipe_eq)

lemma overlap_toast: "calculate_ingredient_overlap ''bread'' [] = Inr 0"
  by (simp add: calculate_ingredient_overlap_def truediv_def Let_def char_eval str_eval)

lemma overlap_pasta:
  "calculate_ingredient_overlap ''tomato, onion, garlic'' [''tomato'', ''onion''] = Inr (200 / 3)"
  by (simp add: calculate_ingredient_overlap_def truediv_def Let_def char_eval str_eval)

lemma overlap_salad:
  "calculate_ingredient_overlap ''Tomato,Onion'' [''tomato'', ''onion''] = Inr 100"
  by (simp add: calculate_ingredient_overlap_def truediv_def Let_def char_eval str_eval)

text \<open>
  The scorer at the time limit \<open>-5\<close>: a recipe of 5 minutes with no ingredient matched
  scores 90.
\<close>

theorem score_recipe_negative_limit_counterexample:
  "(-5 :: int) < 0 \<and> score_recipe toast [] (-5) = Inr 90"
  by (simp add: score_recipe_eq overlap_toast toast_def)

text \<open>
  Both cases at the sample recipe \<open>toast\<close>.
\<close>

theorem score_recipe_zero_limit_witness:
  "score_recipe toast [] 0 = Inl ZeroDivisionError \<and> (-5 :: int) < 0 \<and>
   (\<exists>s. score_recipe toast [] (-5) = Inr s)"
  using score_recipe_zero_limit [of toast "[]" "-5"] by simp

text \<open>
  Claim C4.  For a recipe with a positive cooking time and a positive time limit the
  score is the weighted sum of the three terms with its cap at 100, where the overlap is
  what \<open>calculate_ingredient_overlap\<close> returns.  It lies between 30 and 100, and it is 30
  when the overlap is 0 and the cooking time uses up the limit.
\<close>

theorem score_recipe_formula:
  assumes "0 < cooking_time r" and "0 < limit"
  shows "\<exists>x s. calculate_ingredient_overlap (ingredients r) u = Inr x \<and>
           score_recipe r u limit = Inr s \<and>
           s = min (min x 100 * (4 / 10)
                 + max 0 (100 - of_int (cooking_time r) / of_int limit * 100) * (3 / 10) + 30) 100 \<and>
           30 \<le> s \<and> s \<le> 100 \<and>
           (x = 0 \<and> limit \<le> cooking_time r \<longrightarrow> s = 30)"
proof -
  obtain x where x: "calculate_ingredient_overlap (ingredients r) u = Inr x" "0 \<le> x"
    using overlap_total by blast
  define q :: rat where "q = of_int (cooking_time r) / of_int limit * 100"
  define s where "s = min (min x 100 * (4 / 10) + max 0 (100 - q) * (3 / 10) + 30) 100"
  have sc: "score_recipe r u limit = Inr s"
    using assms(2) by (simp add: score_recipe_eq x s_def q_def)
  have a: "0 \<le> min x 100 * (4 / 10)" using x(2) by simp
  have b: "0 \<le> max 0 (100 - q) * (3 / 10)" by simp
  have lo: "30 \<le> s" using a b by (simp add: s_def)
  have hi: "s \<le> 100" by (simp add: s_def)
  have "s = 30" if "x = 0" "limit \<le> cooking_time r"
  proof -
    have "(of_int limit :: rat) \<le> of_int (cooking_time r)" using that(2) by simp
    moreover have "(0 :: rat) < of_int limit" using assms(2) by simp
    ultimately have "1 \<le> (of_int (cooking_time r) / of_int limit :: rat)"
      by (simp add: le_divide_eq)
    then have "1 * 100 \<le> (of_int (cooking_time r) / of_int limit :: rat) * 100"
      by (rule mult_right_mono) simp
    then have "100 \<le> q" by (simp add: q_def)
    then have "max 0 (100 - q) = 0" by simp
    with that(1) show ?thesis by (simp add: s_def)
  qed
  with x(1) sc lo hi show ?thesis unfolding s_def q_def by blast
qed

text \<open>
  The lower bound is attained: \<open>toast\<close> takes 5 minutes, the limit is 5, nothing matches.
\<close>

theorem score_recipe_formula_witness:
  "0 < cooking_time toast \<and> (0 :: int) < 5 \<and>
   calculate_ingredient_overlap (ingredients toast) [] = Inr 0 \<and>
   (5 :: int) \<le> cooking_time toast \<and> score_recipe toast [] 5 = Inr 30"
proof -
  have ct: "cooking_time toast = 5" by (simp add: toast_def)
  have ing: "ingredients toast = ''bread''" by (simp add: toast_def)
  from score_recipe_formula [of toast 5 "[]"] overlap_toast ct ing show ?thesis by auto
qed

text \<open>
  Claim C5.  With the ingredients, the user's list and a positive time limit fixed, a
  longer cooking time never gives a higher score.
\<close>

theorem score_recipe_antimono:
  assumes "0 < limit" and "t1 \<le> t2"
  shows "\<exists>s1 s2. score_recipe (r\<lparr>cooking_time := t1\<rparr>) u limit = Inr s1 \<and>
           score_recipe (r\<lparr>cooking_time := t2\<rparr>) u limit = Inr s2 \<and> s2 \<le> s1"
proof -
  define c where "c = min (projr (calculate_ingredient_overlap (ingredients r) u)) 100 * (4 / 10)"
  define e1 :: rat where "e1 = of_int t1 / of_int limit * 100"
  define e2 :: rat where "e2 = of_int t2 / of_int limit * 100"
  have l: "(0 :: rat) < of_int limit" using assms(1) by simp
  have "(of_int t1 :: rat) \<le> of_int t2" using assms(2) by simp
  with l have "(of_int t1 / of_int limit :: rat) \<le> of_int t2 / of_int limit"
    by (simp add: divide_right_mono)
  then have e: "e1 \<le> e2"
    unfolding e1_def e2_def by (rule mult_right_mono) simp
  then have "max 0 (100 - e2) \<le> max 0 (100 - e1)"
    by (simp add: max_def)
  then have "max 0 (100 - e2) * (3 / 10) \<le> max 0 (100 - e1) * (3 / 10)"
    by (rule mult_right_mono) simp
  then have "c + max 0 (100 - e2) * (3 / 10) + 30 \<le> c + max 0 (100 - e1) * (3 / 10) + 30"
    by simp
  then have m: "min (c + max 0 (100 - e2) * (3 / 10) + 30) 100
            \<le> min (c + max 0 (100 - e1) * (3 / 10) + 30) 100"
    by (rule min.mono) simp
  have "score_recipe (r\<lparr>cooking_time := t1\<rparr>) u limit =
          Inr (min (c + max 0 (100 - e1) * (3 / 10) + 30) 100)"
    using assms(1) by (simp add: score_recipe_eq c_def e1_def)
  moreover have "score_recipe (r\<lparr>cooking_time := t2\<rparr>) u limit =
          Inr (min (c + max 0 (100 - e2) * (3 / 10) + 30) 100)"
    using assms(1) by (simp add: score_recipe_eq c_def e2_def)
  ultimately show ?thesis using m by blast
qed

text \<open>
  The sample recipe \<open>pasta\<close> at 10 and at 20 minutes, with a limit of 30.
\<close>

theorem score_recipe_antimono_witness:
  "(0 :: int) < 30 \<and> (10 :: int) \<le> 20 \<and>
   score_recipe (pasta\<lparr>cooking_time := 10\<rparr>) [''tomato'', ''onion''] 30 = Inr (230 / 3) \<and>
   score_recipe (pasta\<lparr>cooking_time := 20\<rparr>) [''tomato'', ''onion''] 30 = Inr (200 / 3) \<and>
   (200 / 3 :: rat) \<le> 230 / 3"
proof -
  have i: "ingredients (pasta\<lparr>cooking_time := t\<rparr>) = ingredients pasta" for t by simp
  from score_recipe_antimono [of 30 10 20 pasta "[''tomato'', ''onion'']"] show ?thesis
    by (simp add: score_recipe_eq i overlap_pasta pasta_def)
qed

section \<open>The overlap of an empty ingredient string\<close>

lemma str_split_Nil: "str_split sep [] = [[]]"
  by (simp add: str_split_def)

lemma overlap_empty_recipe:
  "calculate_ingredient_overlap [] u = Inr (if [] \<in> set u then 100 else 0)"
  by (simp add: calculate_ingredient_overlap_def str_split_Nil str_strip_def str_lower_def
      truediv_def Let_def)

section \<open>The filter on the sample catalog\<close>

lemma overlap_toast_user:
  "calculate_ingredient_overlap ''bread'' [''tomato'', ''onion''] = Inr 0"
  by (simp add: calculate_ingredient_overlap_def truediv_def Let_def char_eval str_eval)

lemma lower_queries:
  "str_lower ''DINNER'' = ''dinner''" "str_lower ''Dinner'' = ''dinner''"
  "str_lower ''dinner'' = ''dinner''" "str_lower ''italian'' = ''italian''"
  "str_lower ''Italian'' = ''italian''" "str_lower ''ITALIAN'' = ''italian''"
  by (simp_all add: char_eval str_eval)

lemma filter_catalog:
  "filter_recipes catalog [''tomato'', ''onion''] 30 ''DINNER'' ''italian'' (3 / 5) =
     Inr [salad\<lparr>ingredient_overlap := Some 100\<rparr>, pasta\<lparr>ingredient_overlap := Some (200 / 3)\<rparr>]"
  by (simp add: filter_recipes_eq catalog_def pasta_def salad_def stew_def toast_def
      lower_queries overlap_pasta overlap_salad overlap_toast_user overlap_at_least_def
      sort_descending_def overlap_key_def)

text \<open>
  The filter on the sample catalog: \<open>stew\<close> is too long, \<open>toast\<close> matches no ingredient,
  and \<open>salad\<close> comes before \<open>pasta\<close>.  The row \<open>pasta\<close> of the result has the five
  properties.
\<close>

theorem filter_recipes_sound_witness:
  "filter_recipes catalog [''tomato'', ''onion''] 30 ''DINNER'' ''italian'' (3 / 5) =
     Inr [salad\<lparr>ingredient_overlap := Some 100\<rparr>, pasta\<lparr>ingredient_overlap := Some (200 / 3)\<rparr>] \<and>
   pasta\<lparr>ingredient_overlap := Some (200 / 3)\<rparr> \<in>
     set [salad\<lparr>ingredient_overlap := Some 100\<rparr>, pasta\<lparr>ingredient_overlap := Some (200 / 3)\<rparr>] \<and>
   cooking_time (pasta\<lparr>ingredient_overlap := Some (200 / 3)\<rparr>) \<le> 30 \<and>
   str_lower (meal_type (pasta\<lparr>ingredient_overlap := Some (200 / 3)\<rparr>)) = str_lower ''DINNER'' \<and>
   str_lower (cuisine (pasta\<lparr>ingredient_overlap := Some (200 / 3)\<rparr>)) = str_lower ''italian'' \<and>
   calculate_ingredient_overlap (ingredients (pasta\<lparr>ingredient_overlap := Some (200 / 3)\<rparr>))
     [''tomato'', ''onion''] = Inr (200 / 3) \<and>
   (3 / 5 :: rat) * 100 \<le> 200 / 3"
  using filter_recipes_sound [of catalog "[''tomato'', ''onion'']" 30 "''DINNER''" "''italian''" "3 / 5"]
  by (simp add: filter_catalog pasta_def lower_queries overlap_pasta)

section \<open>The Normalizer\<close>

lemma alias_match_iff: "alias_match aliases n = (n \<in> set (map str_lower aliases))"
  by (induction aliases) auto

lemma resolve_pick:
  "resolve items n = pick (map (\<lambda>(canonical, aliases). (canonical, map str_lower aliases)) items) n"
proof (induction items)
  case Nil
  show ?case by (simp add: pick_def)
next
  case (Cons item items)
  obtain k as where item: "item = (k, as)" by (cases item)
  have "resolve (item # items) n =
          (if n = k \<or> n \<in> set (map str_lower as) then k else resolve items n)"
    by (simp add: item alias_match_iff)
  also have "\<dots> = pick (map (\<lambda>(canonical, aliases). (canonical, map str_lower aliases))
                        (item # items)) n"
    by (simp add: Cons.IH item pick_def)
  finally show ?case .
qed

lemma table_lower:
  "map (\<lambda>(canonical, aliases). (canonical, map str_lower aliases)) INGREDIENT_ALIASES
     = INGREDIENT_ALIASES"
  by (simp add: INGREDIENT_ALIASES_def str_lower_def lower_char_def)

lemma normalize_ingredient_pick:
  "normalize_ingredient s = pick INGREDIENT_ALIASES (clean s)"
  by (simp add: normalize_ingredient_def resolve_pick table_lower)

lemma pick_other: "n \<notin> set (all_names items) \<Longrightarrow> pick items n = n"
  by (induction items) (auto simp: pick_def all_names_def)

lemma all_names_Cons: "all_names ((k, as) # items) = k # as @ all_names items"
  by (simp add: all_names_def)

lemma all_names_member:
  "(k, as) \<in> set items \<Longrightarrow> n = k \<or> n \<in> set as \<Longrightarrow> n \<in> set (all_names items)"
  by (force simp: all_names_def)

lemma pick_member:
  "distinct (all_names items) \<Longrightarrow> (k, as) \<in> set items \<Longrightarrow> n = k \<or> n \<in> set as
     \<Longrightarrow> pick items n = k"
proof (induction items)
  case Nil
  then show ?case by simp
next
  case (Cons item items)
  obtain k' as' where item: "item = (k', as')" by (cases item)
  show ?case
  proof (cases "n = k' \<or> n \<in> set as'")
    case True
    have "k = k'"
    proof (rule ccontr)
      assume "k \<noteq> k'"
      with Cons.prems(2) item have "(k, as) \<in> set items" by auto
      then have "n \<in> set (all_names items)"
        using Cons.prems(3) by (rule all_names_member)
      moreover have "n \<in> set (k' # as')" using True by simp
      moreover have "distinct ((k' # as') @ all_names items)"
        using Cons.prems(1) by (simp add: item all_names_Cons)
      ultimately show False
        unfolding distinct_append by blast
    qed
    with True item show ?thesis by (auto simp: pick_def)
  next
    case False
    with Cons.prems(2,3) item have mem: "(k, as) \<in> set items" by auto
    have d: "distinct (all_names items)"
      using Cons.prems(1) by (simp add: item all_names_Cons)
    have "pick (item # items) n = pick items n"
      using False item by (simp add: pick_def)
    with Cons.IH [OF d mem Cons.prems(3)] show ?thesis by simp
  qed
qed

lemma names_distinct: "distinct (all_names INGREDIENT_ALIASES)"
  by (simp add: all_names_def INGREDIENT_ALIASES_def)

lemma keys_clean: "map clean (map fst INGREDIENT_ALIASES) = map fst INGREDIENT_ALIASES"
  by (simp add: INGREDIENT_ALIASES_def char_eval str_eval)


lemma set_first_occurrences: "set (first_occurrences xs) = set xs"
  by (induction xs rule: first_occurrences.induct) auto

lemma distinct_first_occurrences: "distinct (first_occurrences xs)"
  by (induction xs rule: first_occurrences.induct) (auto simp: set_first_occurrences)

lemma filter_unseen:
  "filter (\<lambda>y. y \<noteq> ing) (filter (\<lambda>t. t \<noteq> [] \<and> t \<notin> seen) rest)
     = filter (\<lambda>t. t \<noteq> [] \<and> t \<notin> insert ing seen) rest"
  by (induction rest) auto

lemma unique_loop_eq:
  "unique_loop xs seen acc = acc @ first_occurrences (filter (\<lambda>t. t \<noteq> [] \<and> t \<notin> seen) xs)"
proof (induction xs arbitrary: seen acc)
  case Nil
  show ?case by simp
next
  case (Cons ing rest)
  show ?case
  proof (cases "ing \<noteq> [] \<and> ing \<notin> seen")
    case True
    then show ?thesis by (simp add: Cons.IH filter_unseen del: filter_filter)
  next
    case False
    then show ?thesis by (auto simp: Cons.IH)
  qed
qed

lemma fragments_example:
  "normalized_fragments ''Tomatoes, onion, tomato'' = [''tomato'', ''onion'', ''tomato'']"
  by (simp add: normalized_fragments_def normalize_ingredient_pick pick_def
      INGREDIENT_ALIASES_def char_eval str_eval)

text \<open>
  Claim C2.  The result of \<open>normalize_ingredients\<close> has no duplicate, and it is the list
  of the normalized fragments that are not empty, each kept at its first occurrence.
\<close>

theorem normalize_ingredients_first_occurrences:
  "distinct (normalize_ingredients s) \<and>
   normalize_ingredients s = first_occurrences (filter (\<lambda>t. t \<noteq> []) (normalized_fragments s)) \<and>
   normalize_ingredients ''Tomatoes, onion, tomato'' = [''tomato'', ''onion'']"
proof -
  have eq: "normalize_ingredients t = first_occurrences (filter (\<lambda>t. t \<noteq> []) (normalized_fragments t))"
    for t
    by (simp add: normalize_ingredients_def unique_loop_eq)
  have "normalize_ingredients ''Tomatoes, onion, tomato'' = [''tomato'', ''onion'']"
    by (simp add: eq fragments_example)
  with eq [of s] distinct_first_occurrences show ?thesis by simp
qed

lemma clean_examples:
  "clean ''Pyaz'' = ''pyaz''" "clean ''red onion'' = ''red onion''"
  "clean ''salt & pepper'' = ''salt  pepper''" "clean ''& tomatoes'' = '' tomatoes''"
  by (simp_all add: char_eval str_eval)

lemma unlisted_examples:
  "''red onion'' \<notin> set (all_names INGREDIENT_ALIASES)"
  "''salt  pepper'' \<notin> set (all_names INGREDIENT_ALIASES)"
  "'' tomatoes'' \<notin> set (all_names INGREDIENT_ALIASES)"
  by (simp_all add: all_names_def INGREDIENT_ALIASES_def)

lemma single_fragment:
  "normalized_fragments ''Pyaz'' = [normalize_ingredient ''Pyaz'']"
  "normalized_fragments ''red onion'' = [normalize_ingredient ''red onion'']"
  "normalized_fragments ''salt & pepper'' = [normalize_ingredient ''salt & pepper'']"
  "normalized_fragments ''& tomatoes'' = [normalize_ingredient ''& tomatoes'']"
  by (simp_all add: normalized_fragments_def char_eval str_eval)

lemma onion_entry: "(''onion'', [''onions'', ''pyaz'']) \<in> set INGREDIENT_ALIASES"
  by (simp add: INGREDIENT_ALIASES_def)

lemma normalize_pyaz: "normalize_ingredient ''Pyaz'' = ''onion''"
  by (simp add: normalize_ingredient_pick clean_examples
      pick_member [OF names_distinct onion_entry])

lemma normalize_unlisted:
  "normalize_ingredient ''red onion'' = ''red onion''"
  "normalize_ingredient ''salt & pepper'' = ''salt  pepper''"
  "normalize_ingredient ''& tomatoes'' = '' tomatoes''"
  by (simp_all add: normalize_ingredient_pick clean_examples pick_other unlisted_examples)

text \<open>
  Claim C6.  \<open>normalize_ingredient\<close> returns the canonical name of the first entry of
  the table whose canonical name or one of whose aliases equals the cleaned fragment.
  A cleaned fragment equal to a name of an entry gets that entry's canonical name, and a
  fragment that is no name of the table is returned as cleaned.
\<close>

theorem alias_resolution_exact:
  "normalize_ingredient s = pick INGREDIENT_ALIASES (clean s) \<and>
   (\<forall>(canonical, aliases) \<in> set INGREDIENT_ALIASES.
      clean s = canonical \<or> clean s \<in> set aliases \<longrightarrow> normalize_ingredient s = canonical) \<and>
   (clean s \<notin> set (all_names INGREDIENT_ALIASES) \<longrightarrow> normalize_ingredient s = clean s) \<and>
   normalize_ingredients ''Pyaz'' = [''onion''] \<and>
   normalize_ingredients ''red onion'' = [''red onion'']"
proof -
  have a: "normalize_ingredient s = pick INGREDIENT_ALIASES (clean s)"
    by (rule normalize_ingredient_pick)
  have b: "\<forall>(canonical, aliases) \<in> set INGREDIENT_ALIASES.
      clean s = canonical \<or> clean s \<in> set aliases \<longrightarrow> normalize_ingredient s = canonical"
    using pick_member [OF names_distinct] by (auto simp: a)
  have c: "clean s \<notin> set (all_names INGREDIENT_ALIASES) \<longrightarrow> normalize_ingredient s = clean s"
    by (simp add: a pick_other)
  have d: "normalize_ingredients ''Pyaz'' = [''onion'']"
    by (simp add: normalize_ingredients_def single_fragment normalize_pyaz)
  have e: "normalize_ingredients ''red onion'' = [''red onion'']"
    by (simp add: normalize_ingredients_def single_fragment normalize_unlisted)
  from a b c d e show ?thesis by blast
qed

text \<open>
  The two examples: \<open>pyaz\<close> is an alias of \<open>onion\<close>, and \<open>red onion\<close> is no name of the
  table.
\<close>

theorem alias_resolution_exact_witness:
  "(''onion'', [''onions'', ''pyaz'']) \<in> set INGREDIENT_ALIASES \<and>
   clean ''Pyaz'' \<in> set [''onions'', ''pyaz''] \<and>
   normalize_ingredient ''Pyaz'' = ''onion'' \<and>
   clean ''red onion'' \<notin> set (all_names INGREDIENT_ALIASES) \<and>
   normalize_ingredient ''red onion'' = ''red onion''"
proof -
  have p: "clean ''Pyaz'' \<in> set [''onions'', ''pyaz'']"
    by (simp add: clean_examples)
  have r: "clean ''red onion'' \<notin> set (all_names INGREDIENT_ALIASES)"
    by (simp only: clean_examples unlisted_examples not_False_eq_True)
  from alias_resolution_exact [of "''Pyaz''"]
  have "\<forall>(canonical, aliases) \<in> set INGREDIENT_ALIASES.
          clean ''Pyaz'' = canonical \<or> clean ''Pyaz'' \<in> set aliases
            \<longrightarrow> normalize_ingredient ''Pyaz'' = canonical"
    by (elim conjE)
  with onion_entry p have a: "normalize_ingredient ''Pyaz'' = ''onion''"
    by fast
  from alias_resolution_exact [of "''red onion''"] r
  have "normalize_ingredient ''red onion'' = clean ''red onion''"
    by (elim conjE) (erule mp)
  then have b: "normalize_ingredient ''red onion'' = ''red onion''"
    by (simp only: clean_examples)
  from onion_entry p a r b show ?thesis by (intro conjI)
qed

text \<open>
  Claim C9.  The special characters are removed after the white space has been
  stripped and collapsed, so the spaces around a removed character stay: a token can
  hold two spaces in a row, and it can start with a space.
\<close>

theorem normalize_keeps_double_space:
  "normalize_ingredients ''salt & pepper'' = [''salt  pepper''] \<and>
   normalize_ingredients ''& tomatoes'' = ['' tomatoes'']"
  by (simp add: normalize_ingredients_def single_fragment normalize_unlisted)

text \<open>
  Claim C10.  Each of the 29 canonical names of the table is normalized to itself.
\<close>

theorem canonical_names_fixed:
  "map normalize_ingredient (map fst INGREDIENT_ALIASES) = map fst INGREDIENT_ALIASES \<and>
   length INGREDIENT_ALIASES = 29"
proof -
  have "pick INGREDIENT_ALIASES k = k" if "k \<in> set (map fst INGREDIENT_ALIASES)" for k
  proof -
    from that obtain as where "(k, as) \<in> set INGREDIENT_ALIASES" by auto
    then show ?thesis using pick_member [OF names_distinct] by blast
  qed
  then have p: "map (pick INGREDIENT_ALIASES) (map fst INGREDIENT_ALIASES)
                  = map fst INGREDIENT_ALIASES"
    by (rule map_idI)
  have "map normalize_ingredient (map fst INGREDIENT_ALIASES)
          = map (pick INGREDIENT_ALIASES) (map clean (map fst INGREDIENT_ALIASES))"
    by (simp add: normalize_ingredient_pick)
  also have "\<dots> = map fst INGREDIENT_ALIASES"
    by (simp only: keys_clean p)
  finally have "map normalize_ingredient (map fst INGREDIENT_ALIASES) = map fst INGREDIENT_ALIASES" .
  moreover have "length INGREDIENT_ALIASES = 29"
    by (simp add: INGREDIENT_ALIASES_def)
  ultimately show ?thesis by simp
qed

section \<open>The empty ingredient string against a normalized list\<close>

text \<open>
  The user's list is a list of normalized ingredients, and \<open>normalize_ingredients\<close> drops
  every empty token.
\<close>

lemma no_empty_token: "[] \<notin> set (normalize_ingredients ingredients_text)"
  by (simp add: normalize_ingredients_def unique_loop_eq set_first_occurrences)

text \<open>
  Claim C7.  For the empty ingredient string \<open>calculate_ingredient_overlap\<close> returns 0
  and raises no division error, for every list that \<open>normalize_ingredients\<close> returns and,
  more generally, for every user list without the empty token.  (The string splits into
  one piece, the empty one, which no normalized ingredient equals; the division is by 1.)
\<close>

theorem overlap_empty_recipe_zero:
  "calculate_ingredient_overlap '''' (normalize_ingredients ingredients_text) = Inr 0 \<and>
   ([] \<notin> set user_ingredients \<longrightarrow>
      calculate_ingredient_overlap '''' user_ingredients = Inr 0)"
  by (simp add: overlap_empty_recipe no_empty_token)

text \<open>
  At the list \<open>[tomato, onion]\<close>, which is what the normalizer returns for the example
  text.
\<close>

theorem overlap_empty_recipe_zero_witness:
  "[] \<notin> set [''tomato'', ''onion''] \<and>
   calculate_ingredient_overlap '''' [''tomato'', ''onion''] = Inr 0"
  using overlap_empty_recipe_zero [of "''Tomatoes, onion, tomato''" "[''tomato'', ''onion'']"]
  by simp

end
